theory Spec2Isabelle
  imports Complex_Main "HOL-Library.Word" "HOL-Library.Sublist"
begin

section \<open>The flyer generator: server (server.js) and page script (public/script.js)\<close>

text \<open>
  The server forwards prompts to two hosted models and post-processes images with a
  background-removal library; the page script walks the generated layout and fills in
  its image placeholders one at a time. Everything outside the repository (the hosted
  models, the segmentation library, Node's base64 codec, the browser's HTML parser) is a
  parameter of the model: a field of the record \<open>world\<close> on the server side, a function
  argument on the page side. Exceptions are values of the type \<open>error\<close>; an
  \<open>async\<close> function that may reject returns \<open>error + 'a\<close>. Console output is
  not modelled. Strings are lists of characters below 256, except the brief, which the
  page examines character by character and which is a list of UTF-16 code units. JSON
  fields have the types the page and the services give them (strings, numbers, a boolean);
  a field absent from a body is \<open>None\<close>.
\<close>

subsection \<open>Bytes, errors and replies\<close>

type_synonym byte = "8 word"

text \<open>The \<open>Error\<close> objects the code throws, and the ones the runtime throws for it.\<close>

datatype error =
    ApiKeyNotSet string \<comment> \<open>\<open>`${name} is not set.`\<close>\<close>
  | UpstreamStatus string nat string \<comment> \<open>\<open>`${service} Error: ${status} - ${errorText}`\<close>\<close>
  | InvalidResponse string \<comment> \<open>the two "Invalid response ..." messages\<close>
  | TypeError \<comment> \<open>property access on \<open>undefined\<close> or \<open>null\<close>\<close>
  | FetchError \<comment> \<open>\<open>fetch\<close> rejected\<close>
  | SyntaxError \<comment> \<open>\<open>response.json()\<close> rejected\<close>
  | LibraryError string \<comment> \<open>thrown inside the segmentation library\<close>

text \<open>What an Express handler sends: \<open>res.json\<close> with status 200, 400 or 500.\<close>

datatype reply =
    Json200 string \<comment> \<open>\<open>{ html: ... }\<close> or \<open>{ url: ... }\<close>\<close>
  | Json400 string \<comment> \<open>\<open>{ error: ... }\<close> with status 400\<close>
  | Json500 error \<comment> \<open>\<open>{ error: error.message }\<close> with status 500\<close>

text \<open>
  The reply of the hosted language model. In the JSON case the list is
  \<open>data.candidates\<close> (\<open>None\<close> when the field is absent); a candidate is \<open>None\<close>
  when it has no \<open>content\<close>, \<open>Some None\<close> when \<open>content.parts[0].text\<close> is not a
  string, and \<open>Some (Some t)\<close> when it is the string \<open>t\<close>.
\<close>

datatype gemini_reply =
    GeminiRejected
  | GeminiNotOk nat string
  | GeminiBadJson
  | GeminiJson "string option option list option"

text \<open>The body posted to the image service by \<open>generateImage\<close>.\<close>

record together_request =
  req_model :: string
  req_prompt :: string
  req_width :: int
  req_height :: int
  req_n :: nat
  req_output_format :: string
  req_response_format :: string

text \<open>
  The reply of the image service. In the JSON case the list is \<open>data.data\<close>
  (\<open>None\<close> when the field is absent), each entry being the \<open>b64_json\<close> field of
  that element (\<open>None\<close> when the element has none).
\<close>

datatype together_reply =
    TogetherRejected
  | TogetherNotOk nat string
  | TogetherBadJson
  | TogetherJson "string option list option"

text \<open>The reply to \<open>fetch(imageUrl)\<close> in the background-removal endpoint.\<close>

datatype remote_reply =
    RemoteRejected
  | RemoteNotOk nat
  | RemoteOk "byte list" "string option" \<comment> \<open>the body and the \<open>content-type\<close> header\<close>

text \<open>
  The environment of the server: the two credentials of \<open>process.env\<close>, the hosted
  models, the library call \<open>removeBackground(blob)\<close> (given the blob's type and bytes,
  it returns the output bytes or throws), \<open>Buffer.from(s, 'base64')\<close>,
  \<open>buffer.toString('base64')\<close> and the remote fetch.
\<close>

record world =
  GEMINI_API_KEY :: "string option"
  TOGETHER_API_KEY :: "string option"
  gemini :: "string \<Rightarrow> gemini_reply"
  together :: "together_request \<Rightarrow> together_reply"
  removeBackground :: "string \<Rightarrow> byte list \<Rightarrow> error + byte list"
  from_base64 :: "string \<Rightarrow> byte list"
  to_base64 :: "byte list \<Rightarrow> string"
  remote :: "string \<Rightarrow> remote_reply"

text \<open>\<open>!apiKey\<close>: the variable is unset or the empty string.\<close>

definition missing :: "string option \<Rightarrow> bool" where
  "missing key = (key = None \<or> key = Some [])"

subsection \<open>\<open>detectImageMimeFromBuffer\<close>\<close>

text \<open>\<open>buffer[i]\<close>: \<open>undefined\<close> (here \<open>None\<close>) beyond the end.\<close>

definition byte_at :: "byte list \<Rightarrow> nat \<Rightarrow> byte option" where
  "byte_at buffer i = (if i < length buffer then Some (buffer ! i) else None)"

definition detectImageMimeFromBuffer :: "byte list \<Rightarrow> string" where
  "detectImageMimeFromBuffer buffer =
     (if buffer = [] then ''image/png''
      else if byte_at buffer 0 = Some 0x89 \<and> byte_at buffer 1 = Some 0x50 \<and> byte_at buffer 2 = Some 0x4E
              \<and> byte_at buffer 3 = Some 0x47 then ''image/png''
      else if byte_at buffer 0 = Some 0xFF \<and> byte_at buffer 1 = Some 0xD8 \<and> byte_at buffer 2 = Some 0xFF
           then ''image/jpeg''
      else if byte_at buffer 0 = Some 0x52 \<and> byte_at buffer 1 = Some 0x49 \<and> byte_at buffer 2 = Some 0x46
              \<and> byte_at buffer 3 = Some 0x46 \<and> byte_at buffer 8 = Some 0x57 \<and> byte_at buffer 9 = Some 0x45
              \<and> byte_at buffer 10 = Some 0x42 then ''image/webp''
      else ''application/octet-stream'')"

subsection \<open>\<open>removeBackgroundFun\<close>\<close>

text \<open>
  The whole body is inside \<open>try\<close>; the \<open>catch\<close> returns the input under a PNG
  label. \<open>detectImageMimeFromBuffer\<close> never returns a falsy value, so the
  \<open>|| 'image/png'\<close> after it has no effect.
\<close>

definition removeBackgroundFun :: "world \<Rightarrow> string \<Rightarrow> string" where
  "removeBackgroundFun w imageBase64 =
     (let inputBuffer = from_base64 w imageBase64;
          mimeType = detectImageMimeFromBuffer inputBuffer
      in case removeBackground w mimeType inputBuffer of
           Inr outputBuffer \<Rightarrow> ''data:image/png;base64,'' @ to_base64 w outputBuffer
         | Inl e \<Rightarrow> ''data:image/png;base64,'' @ imageBase64)"

subsection \<open>\<open>generateImage\<close>\<close>

text \<open>
  Dimensions are integers (the page sends \<open>img.width\<close> and the like). On them
  \<open>Math.round(x)\<close> is \<open>\<lfloor>x + 1/2\<rfloor>\<close>, which is \<^const>\<open>round\<close>, and the division by 16 is
  exact in floating point.
\<close>

definition clamp64 :: "int \<Rightarrow> int" where
  "clamp64 d = (if d < 64 then 64 else d)"

definition roundToMultiple16 :: "int \<Rightarrow> int" where
  "roundToMultiple16 num = round (real_of_int (if num = 0 then 1024 else num) / 16) * 16"

definition image_request :: "string \<Rightarrow> int \<Rightarrow> int \<Rightarrow> together_request" where
  "image_request p wd ht =
     \<lparr>req_model = ''black-forest-labs/FLUX.1-schnell-Free'',
      req_prompt = p,
      req_width = roundToMultiple16 (clamp64 wd),
      req_height = roundToMultiple16 (clamp64 ht),
      req_n = 1,
      req_output_format = ''png'',
      req_response_format = ''base64''\<rparr>"

definition generateImage :: "world \<Rightarrow> string \<Rightarrow> int \<Rightarrow> int \<Rightarrow> bool \<Rightarrow> error + string" where
  "generateImage w p wd ht isTransparent =
     (if missing (TOGETHER_API_KEY w) then Inl (ApiKeyNotSet ''TOGETHER_API_KEY'')
      else case together w (image_request p wd ht) of
             TogetherRejected \<Rightarrow> Inl FetchError
           | TogetherNotOk status errorText \<Rightarrow> Inl (UpstreamStatus ''Together AI'' status errorText)
           | TogetherBadJson \<Rightarrow> Inl SyntaxError
           | TogetherJson None \<Rightarrow> Inl (InvalidResponse ''Invalid response from Together AI'')
           | TogetherJson (Some []) \<Rightarrow> Inl TypeError
           | TogetherJson (Some (None # _)) \<Rightarrow> Inl (InvalidResponse ''Invalid response from Together AI'')
           | TogetherJson (Some (Some b64_json # _)) \<Rightarrow>
               if b64_json = [] then Inl (InvalidResponse ''Invalid response from Together AI'')
               else if isTransparent then Inr (removeBackgroundFun w b64_json)
               else Inr (''data:image/jpeg;base64,'' @ b64_json))"

text \<open>The body of \<open>POST /api/generate-image\<close> and its handler.\<close>

record image_body =
  body_prompt :: string
  body_width :: int
  body_height :: int
  body_isTransparent :: bool

definition api_generate_image :: "world \<Rightarrow> image_body \<Rightarrow> reply" where
  "api_generate_image w body =
     (case generateImage w (body_prompt body) (body_width body) (body_height body)
             (body_isTransparent body) of
        Inr imageUrl \<Rightarrow> Json200 imageUrl
      | Inl e \<Rightarrow> Json500 e)"

subsection \<open>\<open>callGemini\<close>\<close>

text \<open>\<open>text.replace(/pat/g, '')\<close> for a literal pattern: every match, left to right, is dropped.\<close>

function remove_all :: "string \<Rightarrow> string \<Rightarrow> string" where
  "remove_all pat [] = []"
| "remove_all pat (c # cs) =
     (if pat \<noteq> [] \<and> prefix pat (c # cs) then remove_all pat (drop (length pat) (c # cs))
      else c # remove_all pat cs)"
  by pat_completeness auto
termination
  by (relation "measure (\<lambda>(pat, s). length s)") auto

definition callGemini :: "world \<Rightarrow> string \<Rightarrow> error + string" where
  "callGemini w p =
     (if missing (GEMINI_API_KEY w) then Inl (ApiKeyNotSet ''GEMINI_API_KEY'')
      else case gemini w p of
             GeminiRejected \<Rightarrow> Inl FetchError
           | GeminiNotOk status errorText \<Rightarrow> Inl (UpstreamStatus ''Gemini API'' status errorText)
           | GeminiBadJson \<Rightarrow> Inl SyntaxError
           | GeminiJson None \<Rightarrow> Inl (InvalidResponse ''Invalid response structure from Gemini API'')
           | GeminiJson (Some []) \<Rightarrow> Inl TypeError
           | GeminiJson (Some (None # _)) \<Rightarrow>
               Inl (InvalidResponse ''Invalid response structure from Gemini API'')
           | GeminiJson (Some (Some None # _)) \<Rightarrow> Inl TypeError
           | GeminiJson (Some (Some (Some t) # _)) \<Rightarrow>
               Inr (remove_all ''```'' (remove_all ''```html'' t)))"

subsection \<open>\<open>POST /api/generate-layout\<close>\<close>

text \<open>
  The brief is a list of UTF-16 code units, since the page trims it by character class.
  The handler's line that reads \<open>requirements\<close> from the body is commented out; the
  variable is assigned a fixed JSON text instead.
\<close>

type_synonym code_unit = nat

record layout_body =
  body_requirements :: "code_unit list"

definition systemPrompt :: string where
  \<open>systemPrompt =
     ''Act as an expert Frontend Developer and HTML/CSS Renderer. Your task is to accept a **JSON Design Specification** and convert it into a pixel-perfect, single-file HTML flyer.\<newline>'' @
     ''\<newline>'' @
     ''**INPUT DATA:**\<newline>'' @
     ''You will receive a JSON object containing:\<newline>'' @
     ''- `theme_concept`: The overall vibe.\<newline>'' @
     ''- `colors`: Specific HEX codes for backgrounds, accents, and text.\<newline>'' @
     ''- `typography`: Specific Google Font names and styles.\<newline>'' @
     ''- `visual_elements`: A list of descriptions for stickers/graphics.\<newline>'' @
     ''- `content`: The actual text to display.\<newline>'' @
     ''\<newline>'' @
     ''**EXECUTION RULES:**\<newline>'' @
     ''1.  **Strict Adherence:** You must use the **exact** HEX codes and Font Family names provided in the JSON. Do not invent new colors or fonts.\<newline>'' @
     ''2.  **Layout Strategy:** Align and pad text/visuals for a clean, professional layout based on the `theme_concept`. Scale text so it fits without clipping.\<newline>'' @
     ''3.  **Structure:** The output must only contain `<div>`, `<span>`, and `<img>` elements. No JavaScript.\<newline>'' @
     ''4.  **Background:** Use the `colors.background` from the JSON. You may use CSS gradients or `clip-path` shapes using the `colors.accent` to add depth.\<newline>'' @
     ''5.  **Visual Elements (Stickers):**\<newline>'' @
     ''    * Iterate through the `visual_elements` array in the JSON.\<newline>'' @
     ''    * For each item, create an `<img>` tag.\<newline>'' @
     ''    * Set `src=""`.\<newline>'' @
     ''    * Set `x-prompt="[Description from JSON]"`.\<newline>'' @
     ''    * Set `transparent="true"`.\<newline>'' @
     ''    * Position these creatively (using z-index and absolute positioning) to enhance the design without blocking text.\<newline>'' @
     ''6.  **Typography & Spans:**\<newline>'' @
     ''    * Every text node must be wrapped in a `<span>` tag.\<newline>'' @
     ''    * The `<span>` must have a `data-font-url` attribute containing the Google Font link for that specific font family and weight.\<newline>'' @
     ''    * The `<span>` tag itself must NOT have styling properties; apply styles to the parent or a wrapper.\<newline>'' @
     ''7.  **Z-Index:** Every `<div>`, `<img>`, and `<span>` must have a defined `z-index` (not auto).\<newline>'' @
     ''\<newline>'' @
     ''**OUTPUT:**\<newline>'' @
     ''Output ONLY the raw HTML string inside a main container `<div>`. Do not include markdown code blocks or explanations.''\<close>

definition requirements :: string where
  \<open>requirements =
     ''{\<newline>'' @
     ''"theme_concept": "Timeless Elegance Revival",\<newline>'' @
     ''"colors": {\<newline>'' @
     ''"background": "#1A1A1A",\<newline>'' @
     ''"primary_text": "#F5F5DC",\<newline>'' @
     ''"accent": "#B8860B",\<newline>'' @
     ''"container_bg": "rgba(242, 242, 242, 0.85)"\<newline>'' @
     ''},\<newline>'' @
     ''"typography": {\<newline>'' @
     ''"headline_font": "Playfair Display",\<newline>'' @
     ''"headline_style": "uppercase 700",\<newline>'' @
     ''"body_font": "Source Sans Pro"\<newline>'' @
     ''},\<newline>'' @
     ''"visual_elements": [\<newline>'' @
     ''"Elegant metallic foil stamp (e.g., embossed laurel wreath or monogram)",\<newline>'' @
     ''"Whispers of abstract gilded brushstrokes",\<newline>'' @
     ''"Subtle, textured background overlay reminiscent of fine silk or linen",\<newline>'' @
     ''"Geometric accent shape with a soft, iridescent gradient (e.g., a rounded hexagon)"\<newline>'' @
     ''],\<newline>'' @
     ''"css_suggestions": "Apply subtle text-shadow to headlines for refined depth: text-shadow: 0 1px 3px rgba(0,0,0,0.2); Use box-shadow on card elements for a delicate lift: box-shadow: 0 4px 15px rgba(0,0,0,0.1); Incorporate elegant border-radius on containers for a softer feel: border-radius: 8px; Consider subtle linear gradients for backgrounds or accent elements, e.g., background: linear-gradient(135deg, #B8860B, #DAA520);"\<newline>'' @
     ''}''\<close>

definition fullPrompt :: "layout_body \<Rightarrow> string" where
  "fullPrompt body = systemPrompt @ ''\<newline>\<newline>User Requirements: '' @ requirements"

definition api_generate_layout :: "world \<Rightarrow> layout_body \<Rightarrow> reply" where
  "api_generate_layout w body =
     (case callGemini w (fullPrompt body) of
        Inr htmlContent \<Rightarrow> Json200 htmlContent
      | Inl e \<Rightarrow> Json500 e)"

subsection \<open>\<open>POST /api/remove-bg\<close>\<close>

text \<open>
  \<open>imageUrl.match(/^data:(image\/[a-zA-Z0-9.+-]+);base64,(.*)$/)\<close>: the two groups, or
  \<open>None\<close> for \<open>null\<close>. The dot matches anything but a line terminator.
\<close>

definition mime_char :: "char \<Rightarrow> bool" where
  "mime_char c =
     (let k = (of_char c :: nat)
      in (97 \<le> k \<and> k \<le> 122) \<or> (65 \<le> k \<and> k \<le> 90) \<or> (48 \<le> k \<and> k \<le> 57)
         \<or> c = CHR ''.'' \<or> c = CHR ''+'' \<or> c = CHR ''-'')"

definition line_terminator :: "char \<Rightarrow> bool" where
  "line_terminator c = (c = CHR 0x0A \<or> c = CHR 0x0D)"

definition match_data_url :: "string \<Rightarrow> (string \<times> string) option" where
  "match_data_url s =
     (if prefix ''data:image/'' s then
        let rest = drop 11 s;
            subtype = takeWhile mime_char rest;
            after = dropWhile mime_char rest
        in if subtype \<noteq> [] \<and> prefix '';base64,'' after
              \<and> \<not> list_ex line_terminator (drop 8 after)
           then Some (''image/'' @ subtype, drop 8 after)
           else None
      else None)"

text \<open>\<open>imageUrl.split(',')[1]\<close>: \<open>None\<close> for \<open>undefined\<close>, when there is no comma.\<close>

definition split_comma_1 :: "string \<Rightarrow> string option" where
  "split_comma_1 s =
     (case dropWhile (\<lambda>c. c \<noteq> CHR '','') s of
        [] \<Rightarrow> None
      | _ # t \<Rightarrow> Some (takeWhile (\<lambda>c. c \<noteq> CHR '','') t))"

text \<open>
  The first part of the handler, up to the blob handed to the library: either an early
  reply, or the blob's type and bytes. \<open>imageUrl\<close> is \<open>None\<close> when the body has no such
  field. The three-way branch computes \<open>mimeType\<close> and \<open>base64Data\<close>; the statement after
  it assigns \<open>base64Data\<close> again, from \<open>imageUrl\<close> alone.
\<close>

definition declared_mime :: "world \<Rightarrow> string option \<Rightarrow> reply + string" where
  "declared_mime w imageUrl =
     (case imageUrl of
        None \<Rightarrow> Inr ''image/png''
      | Some u \<Rightarrow>
          if prefix ''data:'' u then
            (case match_data_url u of
               None \<Rightarrow> Inl (Json400 ''Invalid data URL format'')
             | Some (m, d) \<Rightarrow> Inr m)
          else if prefix ''http://'' u \<or> prefix ''https://'' u then
            (case remote w u of
               RemoteRejected \<Rightarrow> Inl (Json400 ''Invalid imageUrl or unable to fetch it'')
             | RemoteNotOk status \<Rightarrow> Inl (Json400 ''Invalid imageUrl or unable to fetch it'')
             | RemoteOk bytes contentType \<Rightarrow>
                 (case contentType of
                    None \<Rightarrow> Inr ''image/png''
                  | Some ct \<Rightarrow> if ct \<noteq> [] \<and> prefix ''image/'' ct then Inr ct else Inr ''image/png''))
          else Inr ''image/png'')"

definition reassigned_base64Data :: "string option \<Rightarrow> string option" where
  "reassigned_base64Data imageUrl =
     (case imageUrl of
        None \<Rightarrow> None
      | Some u \<Rightarrow> if prefix ''data:image'' u then split_comma_1 u else Some u)"

definition remove_bg_blob :: "world \<Rightarrow> string option \<Rightarrow> reply + string \<times> byte list" where
  "remove_bg_blob w imageUrl =
     (case declared_mime w imageUrl of
        Inl early \<Rightarrow> Inl early
      | Inr mimeType \<Rightarrow>
          (case reassigned_base64Data imageUrl of
             None \<Rightarrow> Inl (Json400 ''Invalid or missing imageUrl'')
           | Some base64Data \<Rightarrow>
               if base64Data = [] then Inl (Json400 ''Invalid or missing imageUrl'')
               else
                 let inputBuffer = from_base64 w base64Data;
                     detectedMime = detectImageMimeFromBuffer inputBuffer
                 in Inr (if detectedMime \<noteq> ''application/octet-stream'' then detectedMime
                         else mimeType,
                         inputBuffer)))"

definition api_remove_bg :: "world \<Rightarrow> string option \<Rightarrow> reply" where
  "api_remove_bg w imageUrl =
     (case remove_bg_blob w imageUrl of
        Inl early \<Rightarrow> early
      | Inr (mimeType, inputBuffer) \<Rightarrow>
          (case removeBackground w mimeType inputBuffer of
             Inl e \<Rightarrow> Json500 e
           | Inr outputPngBuffer \<Rightarrow>
               if outputPngBuffer = [] then Json200 (''data:image/png;base64,'' @ to_base64 w inputBuffer)
               else Json200 (''data:image/png;base64,'' @ to_base64 w outputPngBuffer)))"

section \<open>The page script\<close>

subsection \<open>The brief and \<open>trim\<close>\<close>

text \<open>
  The white space and line terminators of the language, as code units:
  \<open>String.prototype.trim\<close> strips them from both ends.
\<close>

definition white_space :: "code_unit list" where
  "white_space =
     [0x9, 0xA, 0xB, 0xC, 0xD, 0x20, 0xA0, 0x1680, 0x2000, 0x2001, 0x2002, 0x2003, 0x2004,
      0x2005, 0x2006, 0x2007, 0x2008, 0x2009, 0x200A, 0x2028, 0x2029, 0x202F, 0x205F, 0x3000,
      0xFEFF]"

definition trim :: "code_unit list \<Rightarrow> code_unit list" where
  "trim s = rev (dropWhile (\<lambda>c. c \<in> set white_space) (rev (dropWhile (\<lambda>c. c \<in> set white_space) s)))"

subsection \<open>What \<open>fetch\<close> gives the page\<close>

text \<open>
  A parsed JSON body is \<open>null\<close> or a value whose one field of interest (\<open>html\<close>,
  \<open>url\<close>) is a string or absent. A fetch rejects, or resolves to a response with its
  \<open>ok\<close> flag and its body (\<open>None\<close> when the body is not JSON).
\<close>

datatype json = JsonNull | JsonObject "string option"

datatype fetched = Rejected | Response bool "json option"

text \<open>
  The pattern both fetches follow:
  \<open>if (!response.ok) throw new Error(msg); data = await response.json(); data.field\<close>.
\<close>

datatype thrown = Thrown error | Failure string

definition json_field :: "fetched \<Rightarrow> string \<Rightarrow> thrown + string option" where
  "json_field r msg =
     (case r of
        Rejected \<Rightarrow> Inl (Thrown FetchError)
      | Response ok body \<Rightarrow>
          if \<not> ok then Inl (Failure msg)
          else (case body of
                  None \<Rightarrow> Inl (Thrown SyntaxError)
                | Some JsonNull \<Rightarrow> Inl (Thrown TypeError)
                | Some (JsonObject v) \<Rightarrow> Inr v))"

text \<open>Assigning to \<open>innerHTML\<close> or \<open>src\<close> converts to a string.\<close>

definition to_string :: "string option \<Rightarrow> string" where
  "to_string v = (case v of None \<Rightarrow> ''undefined'' | Some s \<Rightarrow> s)"

subsection \<open>Placeholders and events\<close>

text \<open>
  An \<open>img[x-prompt]\<close> element: the attributes and properties the script reads, and the
  three it writes. The dimension fields hold what the script reads at the element's turn.
\<close>

record img =
  x_prompt :: string
  transparent :: "string option"
  width :: nat
  clientWidth :: nat
  height :: nat
  clientHeight :: nat
  src :: "string option"
  alt :: "string option"
  data_x_image_generated :: "string option"

text \<open>
  The texts of \<open>loadingText\<close>: \<open>'Generating layout with Gemini...'\<close>,
  \<open>`Generating ${images.length} images...`\<close> and
  \<open>`Generating image ${i + 1} of ${images.length}...`\<close>.
\<close>

datatype loading_text =
    GeneratingLayout
  | GeneratingImages nat
  | GeneratingImage nat nat

text \<open>What the handler does that can be seen from outside, in the order it does it.\<close>

datatype event =
    Alert string
  | SetPosterHtml string
  | SetDisabled bool
  | SetLoadingHidden bool
  | SetLoadingText loading_text
  | FetchLayout "code_unit list"
  | FetchImage nat image_body
  | SetSrc nat string
  | SetGenerated nat
  | SetAlt nat string

subsection \<open>The image loop\<close>

definition dimension :: "nat \<Rightarrow> nat \<Rightarrow> nat" where
  "dimension attribute client =
     (if attribute \<noteq> 0 then attribute else if client \<noteq> 0 then client else 300)"

definition image_body_of :: "img \<Rightarrow> image_body" where
  "image_body_of im =
     \<lparr>body_prompt = x_prompt im,
      body_width = int (dimension (width im) (clientWidth im)),
      body_height = int (dimension (height im) (clientHeight im)),
      body_isTransparent = (transparent im = Some ''true'')\<rparr>"

text \<open>
  One turn of the loop for element \<open>i\<close> of \<open>len\<close>: the progress text, the request,
  and inside \<open>try\<close>/\<open>catch\<close> either the two writes of a success or the one of a
  failure.
\<close>

definition loop_body :: "(nat \<Rightarrow> image_body \<Rightarrow> fetched) \<Rightarrow> nat \<Rightarrow> nat \<Rightarrow> img \<Rightarrow> event list \<times> img" where
  "loop_body fetch_image i len im =
     (let body = image_body_of im;
          start = [SetLoadingText (GeneratingImage (i + 1) len), FetchImage i body]
      in case json_field (fetch_image i body) ''Failed to generate image'' of
           Inr imageUrl \<Rightarrow>
             (start @ [SetSrc i (to_string imageUrl), SetGenerated i],
              im\<lparr>src := Some (to_string imageUrl), data_x_image_generated := Some ''1''\<rparr>)
         | Inl imgError \<Rightarrow>
             (start @ [SetAlt i ''Image generation failed''],
              im\<lparr>alt := Some ''Image generation failed''\<rparr>))"

function image_loop :: "(nat \<Rightarrow> image_body \<Rightarrow> fetched) \<Rightarrow> nat \<Rightarrow> img list \<Rightarrow> event list \<times> img list" where
  "image_loop fetch_image i images =
     (if i < length images then
        let turn = loop_body fetch_image i (length images) (images ! i);
            rest = image_loop fetch_image (i + 1) (images[i := snd turn])
        in (fst turn @ fst rest, snd rest)
      else ([], images))"
  by pat_completeness auto
termination
  by (relation "measure (\<lambda>(fetch_image, i, images). length images - i)") auto

subsection \<open>The click handler\<close>

text \<open>
  \<open>parse\<close> stands for the browser: assigning the markup to \<open>innerHTML\<close> and
  \<open>querySelectorAll('img[x-prompt]')\<close>, which lists the placeholders in document
  order. The handler returns its events and the placeholders of the run as it leaves them.
\<close>

definition click_handler ::
  "(string \<Rightarrow> img list) \<Rightarrow> (code_unit list \<Rightarrow> fetched) \<Rightarrow> (nat \<Rightarrow> image_body \<Rightarrow> fetched)
     \<Rightarrow> code_unit list \<Rightarrow> event list \<times> img list" where
  "click_handler parse fetch_layout fetch_image userInput =
     (let brief = trim userInput
      in if brief = [] then ([Alert ''Please enter your requirements first.''], [])
         else
           let reset = [SetPosterHtml [], SetDisabled True, SetLoadingHidden False,
                        SetLoadingText GeneratingLayout, FetchLayout brief];
               cleanup = [SetLoadingHidden True, SetDisabled False]
           in case json_field (fetch_layout brief) ''Failed to generate layout'' of
                Inl e \<Rightarrow>
                  (reset
                   @ [Alert ''An error occurred while generating the flyer. Please try again.'']
                   @ cleanup, [])
              | Inr html \<Rightarrow>
                  let images = parse (to_string html);
                      run = (if length images > 0
                             then let r = image_loop fetch_image 0 images
                                  in (SetLoadingText (GeneratingImages (length images)) # fst r, snd r)
                             else ([], images))
                  in (reset @ [SetPosterHtml (to_string html)] @ fst run @ cleanup, snd run))"

subsection \<open>The page against the server\<close>

text \<open>
  A reply as the page's \<open>fetch\<close> sees it when the transport works: \<open>ok\<close> for status
  200, and the \<open>html\<close> or \<open>url\<close> field, which the error bodies do not have.
\<close>

definition over_http :: "reply \<Rightarrow> fetched" where
  "over_http r =
     (case r of
        Json200 v \<Rightarrow> Response True (Some (JsonObject (Some v)))
      | Json400 m \<Rightarrow> Response False (Some (JsonObject None))
      | Json500 e \<Rightarrow> Response False (Some (JsonObject None)))"

text \<open>The world may differ from one request to the next, so it is indexed by the turn.\<close>

definition served_image :: "(nat \<Rightarrow> world) \<Rightarrow> nat \<Rightarrow> image_body \<Rightarrow> fetched" where
  "served_image ws i body = over_http (api_generate_image (ws i) body)"

definition served_layout :: "world \<Rightarrow> code_unit list \<Rightarrow> fetched" where
  "served_layout w brief = over_http (api_generate_layout w \<lparr>body_requirements = brief\<rparr>)"

subsection \<open>Reading the outcome\<close>

text \<open>
  The script keeps no state per placeholder beyond what it writes on the element: a
  resolved placeholder carries \<open>data-x-image-generated="1"\<close>, a failed one the
  \<open>alt\<close> text. The counters of a run are the numbers of these writes.
\<close>

definition resolved :: "img \<Rightarrow> bool" where
  "resolved im = (data_x_image_generated im = Some ''1'')"

definition failed :: "img \<Rightarrow> bool" where
  "failed im = (alt im = Some ''Image generation failed'')"

definition call_fails :: "fetched \<Rightarrow> bool" where
  "call_fails r = isl (json_field r ''Failed to generate image'')"

fun is_start :: "event \<Rightarrow> bool" where
  "is_start (SetLoadingText (GeneratingImage k len)) = True"
| "is_start e = False"

fun is_fetch_image :: "event \<Rightarrow> bool" where
  "is_fetch_image (FetchImage i body) = True"
| "is_fetch_image e = False"

fun is_completed :: "event \<Rightarrow> bool" where
  "is_completed (SetGenerated i) = True"
| "is_completed e = False"

fun is_failed :: "event \<Rightarrow> bool" where
  "is_failed (SetAlt i a) = True"
| "is_failed e = False"

definition completed_count :: "event list \<Rightarrow> nat" where
  "completed_count evs = length (filter is_completed evs)"

definition failed_count :: "event list \<Rightarrow> nat" where
  "failed_count evs = length (filter is_failed evs)"

definition layout_fails :: "fetched \<Rightarrow> bool" where
  "layout_fails r = isl (json_field r ''Failed to generate layout'')"

text \<open>
  The place of a loop event in time: three stages for each placeholder (progress text,
  request, completion by success or failure), numbered through the document.
\<close>

fun stamp :: "event \<Rightarrow> nat" where
  "stamp (SetLoadingText (GeneratingImage k len)) = 3 * (k - 1)"
| "stamp (FetchImage i body) = 3 * i + 1"
| "stamp (SetSrc i u) = 3 * i + 2"
| "stamp (SetGenerated i) = 3 * i + 2"
| "stamp (SetAlt i a) = 3 * i + 2"
| "stamp e = 0"

section \<open>A concrete world\<close>

text \<open>
  An instance of every parameter, for evaluating the model: the base64 codec (decoding
  skips characters outside the alphabet and stops at the padding), a server whose hosted
  models answer, and a page with three placeholders.
\<close>

definition base64_alphabet :: string where
  "base64_alphabet = ''ABCDEFGHIJKLMNOPQRSTUVWXYZabcdefghijklmnopqrstuvwxyz0123456789+/''"

definition base64_digit :: "char \<Rightarrow> nat option" where
  "base64_digit c =
     (let k = (of_char c :: nat)
      in if 65 \<le> k \<and> k \<le> 90 then Some (k - 65)
         else if 97 \<le> k \<and> k \<le> 122 then Some (k - 71)
         else if 48 \<le> k \<and> k \<le> 57 then Some (k + 4)
         else if c = CHR ''+'' \<or> c = CHR ''-'' then Some 62
         else if c = CHR ''/'' \<or> c = CHR ''_'' then Some 63
         else None)"

fun sextets_to_bytes :: "nat list \<Rightarrow> byte list" where
  "sextets_to_bytes (a # b # c # d # r) =
     of_nat (a * 4 + b div 16) # of_nat (b mod 16 * 16 + c div 4) # of_nat (c mod 4 * 64 + d)
     # sextets_to_bytes r"
| "sextets_to_bytes [a, b, c] = [of_nat (a * 4 + b div 16), of_nat (b mod 16 * 16 + c div 4)]"
| "sextets_to_bytes [a, b] = [of_nat (a * 4 + b div 16)]"
| "sextets_to_bytes r = []"

definition base64_decode :: "string \<Rightarrow> byte list" where
  "base64_decode s =
     sextets_to_bytes (List.map_filter base64_digit (takeWhile (\<lambda>c. c \<noteq> CHR ''='') s))"

fun base64_encode :: "byte list \<Rightarrow> string" where
  "base64_encode (a # b # c # r) =
     [base64_alphabet ! (unat a div 4), base64_alphabet ! (unat a mod 4 * 16 + unat b div 16),
      base64_alphabet ! (unat b mod 16 * 4 + unat c div 64), base64_alphabet ! (unat c mod 64)]
     @ base64_encode r"
| "base64_encode [a, b] =
     [base64_alphabet ! (unat a div 4), base64_alphabet ! (unat a mod 4 * 16 + unat b div 16),
      base64_alphabet ! (unat b mod 16 * 4), CHR ''='']"
| "base64_encode [a] =
     [base64_alphabet ! (unat a div 4), base64_alphabet ! (unat a mod 4 * 16), CHR ''='', CHR ''='']"
| "base64_encode [] = []"

text \<open>The first eight bytes of every PNG file, and their base64 text.\<close>

definition png_signature :: "byte list" where
  "png_signature = [0x89, 0x50, 0x4E, 0x47, 0x0D, 0x0A, 0x1A, 0x0A]"

definition example_world :: world where
  "example_world =
     \<lparr>GEMINI_API_KEY = Some ''gemini-key'',
      TOGETHER_API_KEY = Some ''together-key'',
      gemini = (\<lambda>p. GeminiJson (Some [Some (Some ''<div></div>'')])),
      together = (\<lambda>r. TogetherJson (Some [Some ''iVBORw0KGgo=''])),
      removeBackground = (\<lambda>mimeType bytes. Inr (png_signature @ [0, 1])),
      from_base64 = base64_decode,
      to_base64 = base64_encode,
      remote = (\<lambda>u. RemoteOk png_signature (Some ''image/png''))\<rparr>"

text \<open>The same world with the segmentation library out of order, or the image service.\<close>

definition no_segmentation :: world where
  "no_segmentation =
     example_world\<lparr>removeBackground := (\<lambda>mimeType bytes. Inl (LibraryError ''model not found''))\<rparr>"

definition no_images :: world where
  "no_images = example_world\<lparr>together := (\<lambda>r. TogetherNotOk 429 ''rate limit'')\<rparr>"

definition no_layout :: world where
  "no_layout = example_world\<lparr>gemini := (\<lambda>p. GeminiNotOk 503 ''unavailable'')\<rparr>"

definition example_img :: "string \<Rightarrow> string \<Rightarrow> img" where
  "example_img p t =
     \<lparr>x_prompt = p, transparent = Some t, width = 0, clientWidth = 120, height = 0,
      clientHeight = 0, src = Some [], alt = None, data_x_image_generated = None\<rparr>"

definition example_images :: "img list" where
  "example_images =
     [example_img ''a beach'' ''false'', example_img ''a cocktail'' ''true'',
      example_img ''a palm'' ''true'']"

text \<open>Turn 1 meets the failing image service, the other turns the failing library.\<close>

definition example_worlds :: "nat \<Rightarrow> world" where
  "example_worlds i = (if i = 1 then no_images else no_segmentation)"

section \<open>Properties\<close>

subsection \<open>The image loop, turn by turn\<close>

text \<open>
  The loop's events are the events of its turns in index order, and each element ends
  as its own turn leaves it: a turn reads and writes no other element.
\<close>

declare image_loop.simps [simp del]

lemma image_loop_length: "length (snd (image_loop f i images)) = length images"
proof (induction f i images rule: image_loop.induct)
  case (1 f i images)
  show ?case
  proof (cases "i < length images")
    case True
    with "1.IH" [OF True refl] show ?thesis
      by (subst image_loop.simps) (simp add: Let_def)
  next
    case False
    then show ?thesis by (subst image_loop.simps) simp
  qed
qed

lemma image_loop_events:
  "fst (image_loop f i images) =
     concat (map (\<lambda>j. fst (loop_body f j (length images) (images ! j))) [i..<length images])"
proof (induction f i images rule: image_loop.induct)
  case (1 f i images)
  show ?case
  proof (cases "i < length images")
    case True
    have "fst (image_loop f i images) =
            fst (loop_body f i (length images) (images ! i))
            @ fst (image_loop f (i + 1) (images[i := snd (loop_body f i (length images) (images ! i))]))"
      using True by (subst image_loop.simps) (simp add: Let_def)
    also have "fst (image_loop f (i + 1) (images[i := snd (loop_body f i (length images) (images ! i))]))
       = concat (map (\<lambda>j. fst (loop_body f j (length images) (images ! j))) [i + 1..<length images])"
    proof -
      have "map (\<lambda>j. fst (loop_body f j (length images)
                   (images[i := snd (loop_body f i (length images) (images ! i))] ! j)))
              [i + 1..<length images]
          = map (\<lambda>j. fst (loop_body f j (length images) (images ! j))) [i + 1..<length images]"
        by (rule map_cong) auto
      from "1.IH" [OF True refl] arg_cong [OF this, of concat] show ?thesis
        by (simp only: length_list_update)
    qed
    finally show ?thesis using True by (simp add: upt_conv_Cons)
  next
    case False
    then show ?thesis by (subst image_loop.simps) simp
  qed
qed

lemma image_loop_nth:
  "j < length images \<Longrightarrow>
   snd (image_loop f i images) ! j =
     (if i \<le> j then snd (loop_body f j (length images) (images ! j)) else images ! j)"
proof (induction f i images rule: image_loop.induct)
  case (1 f i images)
  show ?case
  proof (cases "i < length images")
    case True
    have "snd (image_loop f i images) =
            snd (image_loop f (i + 1) (images[i := snd (loop_body f i (length images) (images ! i))]))"
      using True by (subst image_loop.simps) (simp add: Let_def)
    moreover have "snd (image_loop f (i + 1) (images[i := snd (loop_body f i (length images) (images ! i))])) ! j
        = (if i + 1 \<le> j then snd (loop_body f j (length images) (images ! j))
           else images[i := snd (loop_body f i (length images) (images ! i))] ! j)"
      using "1.IH" [OF True refl] "1.prems" by (simp add: nth_list_update)
    ultimately show ?thesis
      using "1.prems" by (cases "i = j") (auto simp: nth_list_update)
  next
    case False
    then show ?thesis using "1.prems" by (subst image_loop.simps) simp
  qed
qed


subsection \<open>Dimensions\<close>





subsection \<open>Labels of the generated images\<close>

lemma generateImage_success:
  assumes "generateImage w p wd ht isTransparent = Inr url"
  shows "\<exists>b64 others. together w (image_request p wd ht) = TogetherJson (Some (Some b64 # others))
            \<and> b64 \<noteq> []
            \<and> url = (if isTransparent then removeBackgroundFun w b64
                      else ''data:image/jpeg;base64,'' @ b64)"
  using assms
  by (auto simp: generateImage_def
           split: if_splits together_reply.splits option.splits list.splits)

lemma removeBackgroundFun_label: "prefix ''data:image/png;base64,'' (removeBackgroundFun w b64)"
  by (simp add: removeBackgroundFun_def Let_def split: sum.splits)

text \<open>
  Claim C10. Whenever \<open>generateImage\<close> succeeds, the request it posted asked for PNG
  output; for a non-transparent image the returned reference is
  \<open>data:image/jpeg;base64,\<close> followed by the payload of the image service, whatever
  that payload encodes; for a transparent image it begins with \<open>data:image/png;base64,\<close>.
\<close>

theorem mime_labels:
  assumes "generateImage w p wd ht isTransparent = Inr url"
  shows "req_output_format (image_request p wd ht) = ''png''
       \<and> prefix (if isTransparent then ''data:image/png;base64,'' else ''data:image/jpeg;base64,'') url
       \<and> (\<exists>b64 others. together w (image_request p wd ht) = TogetherJson (Some (Some b64 # others))
             \<and> url = (if isTransparent then removeBackgroundFun w b64
                       else ''data:image/jpeg;base64,'' @ b64))"
proof -
  from generateImage_success [OF assms] obtain b64 others where
    reply: "together w (image_request p wd ht) = TogetherJson (Some (Some b64 # others))" and
    url: "url = (if isTransparent then removeBackgroundFun w b64 else ''data:image/jpeg;base64,'' @ b64)"
    by blast
  have "prefix (if isTransparent then ''data:image/png;base64,'' else ''data:image/jpeg;base64,'') url"
  proof (cases isTransparent)
    case True
    with url removeBackgroundFun_label [of w b64] show ?thesis by simp
  next
    case False
    with url show ?thesis by simp
  qed
  moreover have "req_output_format (image_request p wd ht) = ''png''"
    by (simp add: image_request_def)
  ultimately show ?thesis using reply url by blast
qed

theorem mime_labels_witness:
  "generateImage example_world ''a beach'' 120 300 False = Inr ''data:image/jpeg;base64,iVBORw0KGgo=''
   \<and> req_output_format (image_request ''a beach'' 120 300) = ''png''
   \<and> prefix ''data:image/jpeg;base64,'' ''data:image/jpeg;base64,iVBORw0KGgo=''
   \<and> detectImageMimeFromBuffer (from_base64 example_world ''iVBORw0KGgo='') = ''image/png''"
proof -
  have run: "generateImage example_world ''a beach'' 120 300 False = Inr ''data:image/jpeg;base64,iVBORw0KGgo=''"
    by (simp add: generateImage_def example_world_def missing_def)
  have sniffed: "detectImageMimeFromBuffer (from_base64 example_world ''iVBORw0KGgo='') = ''image/png''"
    by (simp add: example_world_def base64_decode_def base64_digit_def List.map_filter_def
        detectImageMimeFromBuffer_def byte_at_def)
  from mime_labels [OF run] run sniffed show ?thesis by simp
qed

subsection \<open>One turn of the loop\<close>

lemma loop_body_events:
  "fst (loop_body f i len im) =
     [SetLoadingText (GeneratingImage (i + 1) len), FetchImage i (image_body_of im)]
     @ (case json_field (f i (image_body_of im)) ''Failed to generate image'' of
          Inr imageUrl \<Rightarrow> [SetSrc i (to_string imageUrl), SetGenerated i]
        | Inl imgError \<Rightarrow> [SetAlt i ''Image generation failed''])"
  by (simp add: loop_body_def Let_def split: sum.splits)

lemma loop_body_failed:
  "call_fails (f i (image_body_of im)) \<Longrightarrow> failed (snd (loop_body f i len im))"
  by (auto simp: call_fails_def failed_def loop_body_def Let_def split: sum.splits)

lemma loop_body_terminal:
  "resolved (snd (loop_body f i len im)) \<or> failed (snd (loop_body f i len im))"
  by (simp add: resolved_def failed_def loop_body_def Let_def split: sum.splits)

lemma loop_body_fetches:
  "FetchImage i (image_body_of im) \<in> set (fst (loop_body f i len im))"
  by (simp add: loop_body_events)

text \<open>A failure of \<open>generateImage\<close> on the server is a failed call on the page.\<close>

lemma generation_failure_served:
  assumes "generateImage (ws i) (body_prompt body) (body_width body) (body_height body)
             (body_isTransparent body) = Inl e"
  shows "call_fails (served_image ws i body)"
  using assms
  by (simp add: call_fails_def served_image_def api_generate_image_def over_http_def
      json_field_def)

lemma loop_body_failed_state:
  "call_fails (f i (image_body_of im)) \<Longrightarrow>
   snd (loop_body f i len im) = im\<lparr>alt := Some ''Image generation failed''\<rparr>"
  by (auto simp: call_fails_def loop_body_def Let_def split: sum.splits)

lemma loop_body_failed_events:
  "call_fails (f i (image_body_of im)) \<Longrightarrow>
   fst (loop_body f i len im) =
     [SetLoadingText (GeneratingImage (i + 1) len), FetchImage i (image_body_of im),
      SetAlt i ''Image generation failed'']"
  by (auto simp: call_fails_def loop_body_events split: sum.splits)

lemma loop_body_success_writes:
  assumes "e \<in> set (fst (loop_body f j len im))"
    and "e = SetGenerated i \<or> e = SetSrc i u"
  shows "j = i \<and> \<not> call_fails (f j (image_body_of im))"
  using assms
  by (auto simp: loop_body_events call_fails_def split: sum.splits)

lemma image_loop_event_turn:
  assumes "e \<in> set (fst (image_loop f 0 images))"
  shows "\<exists>j < length images. e \<in> set (fst (loop_body f j (length images) (images ! j)))"
  using assms unfolding image_loop_events by auto

text \<open>
  Claim C1. If the call for placeholder \<open>i\<close> fails (the fetch rejects, the status is
  not ok, or the body cannot be read), that placeholder ends in the failed state and in
  no other: it is the element as it was with the failure text as its \<open>alt\<close>, its
  \<open>src\<close> and its generated marker untouched, and the run writes neither of the two
  for it. Every later placeholder is still requested and ends resolved or failed, as its
  own turn leaves it; the loop leaves as many placeholders as it was given.
\<close>

theorem failure_isolation:
  assumes turn: "i < length images"
    and fails: "call_fails (f i (image_body_of (images ! i)))"
  shows "failed (snd (image_loop f 0 images) ! i)
       \<and> length (snd (image_loop f 0 images)) = length images
       \<and> (\<forall>j. i < j \<and> j < length images \<longrightarrow>
              FetchImage j (image_body_of (images ! j)) \<in> set (fst (image_loop f 0 images))
            \<and> (resolved (snd (image_loop f 0 images) ! j) \<or> failed (snd (image_loop f 0 images) ! j)))
       \<and> snd (image_loop f 0 images) ! i = (images ! i)\<lparr>alt := Some ''Image generation failed''\<rparr>
       \<and> src (snd (image_loop f 0 images) ! i) = src (images ! i)
       \<and> data_x_image_generated (snd (image_loop f 0 images) ! i)
           = data_x_image_generated (images ! i)
       \<and> (resolved (snd (image_loop f 0 images) ! i) = resolved (images ! i))
       \<and> fst (loop_body f i (length images) (images ! i))
           = [SetLoadingText (GeneratingImage (i + 1) (length images)),
              FetchImage i (image_body_of (images ! i)), SetAlt i ''Image generation failed'']
       \<and> SetAlt i ''Image generation failed'' \<in> set (fst (image_loop f 0 images))
       \<and> SetGenerated i \<notin> set (fst (image_loop f 0 images))
       \<and> (\<forall>u. SetSrc i u \<notin> set (fst (image_loop f 0 images)))
       \<and> (\<forall>j. i < j \<and> j < length images \<longrightarrow>
              snd (image_loop f 0 images) ! j = snd (loop_body f j (length images) (images ! j)))"
proof -
  have state: "snd (image_loop f 0 images) ! i = (images ! i)\<lparr>alt := Some ''Image generation failed''\<rparr>"
    using turn fails by (simp add: image_loop_nth loop_body_failed_state)
  then have marked: "failed (snd (image_loop f 0 images) ! i)"
    and untouched: "src (snd (image_loop f 0 images) ! i) = src (images ! i)"
      "data_x_image_generated (snd (image_loop f 0 images) ! i) = data_x_image_generated (images ! i)"
      "resolved (snd (image_loop f 0 images) ! i) = resolved (images ! i)"
    by (simp_all add: failed_def resolved_def)
  have turn_events: "fst (loop_body f i (length images) (images ! i))
           = [SetLoadingText (GeneratingImage (i + 1) (length images)),
              FetchImage i (image_body_of (images ! i)), SetAlt i ''Image generation failed'']"
    using fails by (rule loop_body_failed_events)
  have in_trace: "e \<in> set (fst (image_loop f 0 images))"
    if "j < length images" and "e \<in> set (fst (loop_body f j (length images) (images ! j)))" for j e
  proof -
    have "j \<in> set [0..<length images]" using that(1) by simp
    with that(2) show ?thesis
      unfolding image_loop_events set_concat set_map by blast
  qed
  have alt_written: "SetAlt i ''Image generation failed'' \<in> set (fst (image_loop f 0 images))"
    by (rule in_trace [OF turn]) (simp add: turn_events)
  have no_marker: "SetGenerated i \<notin> set (fst (image_loop f 0 images))"
  proof
    assume "SetGenerated i \<in> set (fst (image_loop f 0 images))"
    then obtain j where "SetGenerated i \<in> set (fst (loop_body f j (length images) (images ! j)))"
      using image_loop_event_turn by blast
    from loop_body_success_writes [OF this] fails show False by blast
  qed
  have no_src: "SetSrc i u \<notin> set (fst (image_loop f 0 images))" for u
  proof
    assume "SetSrc i u \<in> set (fst (image_loop f 0 images))"
    then obtain j where "SetSrc i u \<in> set (fst (loop_body f j (length images) (images ! j)))"
      using image_loop_event_turn by blast
    from loop_body_success_writes [OF this] fails show False by blast
  qed
  have requested: "FetchImage j (image_body_of (images ! j)) \<in> set (fst (image_loop f 0 images))"
    if "j < length images" for j
    by (rule in_trace [OF that]) (rule loop_body_fetches)
  have own_turn: "snd (image_loop f 0 images) ! j = snd (loop_body f j (length images) (images ! j))"
    if "j < length images" for j
    using that by (simp add: image_loop_nth)
  have terminal: "resolved (snd (image_loop f 0 images) ! j) \<or> failed (snd (image_loop f 0 images) ! j)"
    if "j < length images" for j
    using that loop_body_terminal [of f j "length images" "images ! j"]
    by (simp add: image_loop_nth)
  have later: "\<forall>j. i < j \<and> j < length images \<longrightarrow>
              FetchImage j (image_body_of (images ! j)) \<in> set (fst (image_loop f 0 images))
            \<and> (resolved (snd (image_loop f 0 images) ! j) \<or> failed (snd (image_loop f 0 images) ! j))"
    using requested terminal by blast
  have later_state: "\<forall>j. i < j \<and> j < length images \<longrightarrow>
              snd (image_loop f 0 images) ! j = snd (loop_body f j (length images) (images ! j))"
    using own_turn by blast
  have size: "length (snd (image_loop f 0 images)) = length images"
    by (rule image_loop_length)
  from marked size later state untouched turn_events alt_written no_marker no_src later_state
  show ?thesis by blast
qed

theorem failure_isolation_witness:
  "(1::nat) < length example_images
   \<and> call_fails (served_image example_worlds 1 (image_body_of (example_images ! 1)))
   \<and> failed (snd (image_loop (served_image example_worlds) 0 example_images) ! 1)
   \<and> snd (image_loop (served_image example_worlds) 0 example_images) ! 1
       = (example_img ''a cocktail'' ''true'')\<lparr>alt := Some ''Image generation failed''\<rparr>
   \<and> src (snd (image_loop (served_image example_worlds) 0 example_images) ! 1) = Some []
   \<and> data_x_image_generated (snd (image_loop (served_image example_worlds) 0 example_images) ! 1) = None
   \<and> \<not> resolved (snd (image_loop (served_image example_worlds) 0 example_images) ! 1)
   \<and> SetGenerated 1 \<notin> set (fst (image_loop (served_image example_worlds) 0 example_images))
   \<and> FetchImage 2 (image_body_of (example_images ! 2))
        \<in> set (fst (image_loop (served_image example_worlds) 0 example_images))
   \<and> resolved (snd (image_loop (served_image example_worlds) 0 example_images) ! 2)"
proof -
  have turn: "(1::nat) < length example_images"
    by (simp add: example_images_def)
  have fails: "call_fails (served_image example_worlds 1 (image_body_of (example_images ! 1)))"
    by (simp add: call_fails_def served_image_def over_http_def api_generate_image_def
        generateImage_def example_worlds_def no_images_def example_world_def missing_def
        json_field_def)
  have last: "resolved (snd (image_loop (served_image example_worlds) 0 example_images) ! 2)"
    by (simp add: image_loop_nth example_images_def resolved_def loop_body_def Let_def
        served_image_def over_http_def api_generate_image_def generateImage_def
        example_worlds_def no_segmentation_def example_world_def missing_def json_field_def
        image_body_of_def example_img_def removeBackgroundFun_def)
  have before: "example_images ! 1 = example_img ''a cocktail'' ''true''"
    "src (example_img ''a cocktail'' ''true'') = Some []"
    "data_x_image_generated (example_img ''a cocktail'' ''true'') = None"
    "\<not> resolved (example_img ''a cocktail'' ''true'')"
    by (simp_all add: example_images_def example_img_def resolved_def)
  have third: "(1::nat) < 2 \<and> 2 < length example_images"
    by (simp add: example_images_def)
  note run = failure_isolation [where i = 1 and images = example_images
      and f = "served_image example_worlds", OF turn fails]
  from run have marked: "failed (snd (image_loop (served_image example_worlds) 0 example_images) ! 1)"
    by blast
  from run have state: "snd (image_loop (served_image example_worlds) 0 example_images) ! 1
       = (example_images ! 1)\<lparr>alt := Some ''Image generation failed''\<rparr>"
    by blast
  from run have no_marker:
    "SetGenerated 1 \<notin> set (fst (image_loop (served_image example_worlds) 0 example_images))"
    by blast
  from run third have requested: "FetchImage 2 (image_body_of (example_images ! 2))
        \<in> set (fst (image_loop (served_image example_worlds) 0 example_images))"
    by blast
  from state before have
    "snd (image_loop (served_image example_worlds) 0 example_images) ! 1
       = (example_img ''a cocktail'' ''true'')\<lparr>alt := Some ''Image generation failed''\<rparr>"
    "src (snd (image_loop (served_image example_worlds) 0 example_images) ! 1) = Some []"
    "data_x_image_generated (snd (image_loop (served_image example_worlds) 0 example_images) ! 1) = None"
    "\<not> resolved (snd (image_loop (served_image example_worlds) 0 example_images) ! 1)"
    by (simp_all add: resolved_def)
  with turn fails marked no_marker requested last show ?thesis
    by blast
qed

subsection \<open>Segmentation failure\<close>

lemma served_degraded:
  assumes key: "\<not> missing (TOGETHER_API_KEY w)"
    and raster: "together w (image_request (body_prompt body) (body_width body) (body_height body))
                   = TogetherJson (Some (Some b64 # others))"
    and payload: "b64 \<noteq> []"
    and flag: "body_isTransparent body"
    and segmentation: "removeBackground w (detectImageMimeFromBuffer (from_base64 w b64))
                         (from_base64 w b64) = Inl e"
  shows "api_generate_image w body = Json200 (''data:image/png;base64,'' @ b64)"
  using assms
  by (simp add: api_generate_image_def generateImage_def removeBackgroundFun_def Let_def)

text \<open>
  Claim C2. For a placeholder with \<open>transparent="true"\<close> whose image the service
  delivers and whose background removal throws, the page served by this server ends with
  the placeholder resolved, its \<open>src\<close> the payload as generated under a PNG label, and
  no failure text written on it.
\<close>

theorem segmentation_failure_degrades:
  assumes turn: "i < length images"
    and flag: "transparent (images ! i) = Some ''true''"
    and key: "\<not> missing (TOGETHER_API_KEY (ws i))"
    and raster: "together (ws i)
                   (image_request (x_prompt (images ! i))
                      (body_width (image_body_of (images ! i)))
                      (body_height (image_body_of (images ! i))))
                   = TogetherJson (Some (Some b64 # others))"
    and payload: "b64 \<noteq> []"
    and segmentation: "removeBackground (ws i) (detectImageMimeFromBuffer (from_base64 (ws i) b64))
                         (from_base64 (ws i) b64) = Inl e"
  shows "src (snd (image_loop (served_image ws) 0 images) ! i) = Some (''data:image/png;base64,'' @ b64)
       \<and> resolved (snd (image_loop (served_image ws) 0 images) ! i)
       \<and> alt (snd (image_loop (served_image ws) 0 images) ! i) = alt (images ! i)"
proof -
  let ?body = "image_body_of (images ! i)"
  have "body_prompt ?body = x_prompt (images ! i)" "body_isTransparent ?body"
    using flag by (simp_all add: image_body_of_def)
  with key raster payload segmentation
  have "api_generate_image (ws i) ?body = Json200 (''data:image/png;base64,'' @ b64)"
    by (intro served_degraded) simp_all
  then have "json_field (served_image ws i ?body) ''Failed to generate image''
               = Inr (Some (''data:image/png;base64,'' @ b64))"
    by (simp add: served_image_def over_http_def json_field_def)
  then have "snd (loop_body (served_image ws) i (length images) (images ! i))
               = (images ! i)\<lparr>src := Some (''data:image/png;base64,'' @ b64),
                               data_x_image_generated := Some ''1''\<rparr>"
    by (simp add: loop_body_def Let_def to_string_def)
  with turn show ?thesis
    by (simp add: image_loop_nth resolved_def)
qed

theorem segmentation_failure_degrades_witness:
  "(2::nat) < length example_images
   \<and> transparent (example_images ! 2) = Some ''true''
   \<and> removeBackground (example_worlds 2)
        (detectImageMimeFromBuffer (from_base64 (example_worlds 2) ''iVBORw0KGgo=''))
        (from_base64 (example_worlds 2) ''iVBORw0KGgo='') = Inl (LibraryError ''model not found'')
   \<and> src (snd (image_loop (served_image example_worlds) 0 example_images) ! 2)
        = Some ''data:image/png;base64,iVBORw0KGgo=''
   \<and> resolved (snd (image_loop (served_image example_worlds) 0 example_images) ! 2)"
proof -
  have turn: "(2::nat) < length example_images"
    and flag: "transparent (example_images ! 2) = Some ''true''"
    by (simp_all add: example_images_def example_img_def)
  have key: "\<not> missing (TOGETHER_API_KEY (example_worlds 2))"
    by (simp add: example_worlds_def no_segmentation_def example_world_def missing_def)
  have raster: "together (example_worlds 2)
                   (image_request (x_prompt (example_images ! 2))
                      (body_width (image_body_of (example_images ! 2)))
                      (body_height (image_body_of (example_images ! 2))))
                   = TogetherJson (Some (Some ''iVBORw0KGgo='' # []))"
    by (simp add: example_worlds_def no_segmentation_def example_world_def)
  have payload: "''iVBORw0KGgo='' \<noteq> []"
    by simp
  have segmentation: "removeBackground (example_worlds 2)
        (detectImageMimeFromBuffer (from_base64 (example_worlds 2) ''iVBORw0KGgo=''))
        (from_base64 (example_worlds 2) ''iVBORw0KGgo='') = Inl (LibraryError ''model not found'')"
    by (simp add: example_worlds_def no_segmentation_def example_world_def)
  from segmentation_failure_degrades [where i = 2 and images = example_images and ws = example_worlds,
      OF turn flag key raster payload segmentation]
    turn flag segmentation
  show ?thesis by simp
qed


subsection \<open>Progress and counters\<close>

lemma turn_starts:
  "filter is_start (fst (loop_body f i len im)) = [SetLoadingText (GeneratingImage (i + 1) len)]"
  by (simp add: loop_body_events split: sum.splits)

lemma turn_calls:
  "filter (\<lambda>e. is_start e \<or> is_fetch_image e) (fst (loop_body f i len im))
     = [SetLoadingText (GeneratingImage (i + 1) len), FetchImage i (image_body_of im)]"
  by (simp add: loop_body_events split: sum.splits)

lemma turn_counts:
  "completed_count (fst (loop_body f i len im)) + failed_count (fst (loop_body f i len im)) = 1"
  by (simp add: completed_count_def failed_count_def loop_body_events split: sum.splits)

lemma counts_concat:
  assumes "\<And>x. x \<in> set xs \<Longrightarrow> completed_count (g x) + failed_count (g x) = 1"
  shows "completed_count (concat (map g xs)) + failed_count (concat (map g xs)) = length xs"
  using assms
proof (induction xs)
  case Nil
  show ?case by (simp add: completed_count_def failed_count_def)
next
  case (Cons x xs)
  have "completed_count (g x) + failed_count (g x) = 1"
    by (rule Cons.prems) simp
  moreover have "completed_count (concat (map g xs)) + failed_count (concat (map g xs)) = length xs"
    by (rule Cons.IH) (simp add: Cons.prems)
  ultimately show ?case
    by (simp add: completed_count_def failed_count_def)
qed

text \<open>
  Claim C3. For \<open>N\<close> placeholders the loop sets the per-item progress text exactly \<open>N\<close>
  times, for items 1 to \<open>N\<close> in this order, each time immediately before that item's
  request; and the number of placeholders it marks generated plus the number it marks
  failed is \<open>N\<close>.
\<close>

theorem progress_and_counters:
  "filter is_start (fst (image_loop f 0 images))
     = map (\<lambda>i. SetLoadingText (GeneratingImage (i + 1) (length images))) [0..<length images]
   \<and> length (filter is_start (fst (image_loop f 0 images))) = length images
   \<and> filter (\<lambda>e. is_start e \<or> is_fetch_image e) (fst (image_loop f 0 images))
       = concat (map (\<lambda>i. [SetLoadingText (GeneratingImage (i + 1) (length images)),
                            FetchImage i (image_body_of (images ! i))]) [0..<length images])
   \<and> completed_count (fst (image_loop f 0 images)) + failed_count (fst (image_loop f 0 images))
       = length images"
proof -
  have starts: "filter is_start (fst (image_loop f 0 images))
     = map (\<lambda>i. SetLoadingText (GeneratingImage (i + 1) (length images))) [0..<length images]"
    by (simp add: image_loop_events filter_concat comp_def turn_starts)
  have calls: "filter (\<lambda>e. is_start e \<or> is_fetch_image e) (fst (image_loop f 0 images))
       = concat (map (\<lambda>i. [SetLoadingText (GeneratingImage (i + 1) (length images)),
                            FetchImage i (image_body_of (images ! i))]) [0..<length images])"
    by (simp add: image_loop_events filter_concat comp_def turn_calls)
  have counts: "completed_count (fst (image_loop f 0 images)) + failed_count (fst (image_loop f 0 images))
       = length images"
    unfolding image_loop_events
    using counts_concat [of "[0..<length images]"
        "\<lambda>j. fst (loop_body f j (length images) (images ! j))"]
    by (simp add: turn_counts)
  from starts have "length (filter is_start (fst (image_loop f 0 images))) = length images"
    by simp
  with starts calls counts show ?thesis by blast
qed

subsection \<open>Order of the turns\<close>

lemma turn_stamps:
  "map stamp (fst (loop_body f i len im)) =
     (if call_fails (f i (image_body_of im)) then [3 * i, 3 * i + 1, 3 * i + 2]
      else [3 * i, 3 * i + 1, 3 * i + 2, 3 * i + 2])"
  by (simp add: loop_body_events call_fails_def split: sum.splits)

lemma sorted_turns:
  assumes "\<And>j. sorted (g j)"
    and "\<And>j x. x \<in> set (g j) \<Longrightarrow> 3 * j \<le> x \<and> x \<le> 3 * j + 2"
  shows "sorted (concat (map g [0..<n]))"
proof (induction n)
  case 0
  show ?case by simp
next
  case (Suc n)
  have "x \<le> y" if "x \<in> set (concat (map g [0..<n]))" and "y \<in> set (g n)" for x y
  proof -
    from that(1) obtain j where "j < n" and "x \<in> set (g j)" by auto
    with assms(2) [of x j] have "x < 3 * n" by simp
    with assms(2) [OF that(2)] show ?thesis by simp
  qed
  with Suc assms(1) [of n] show ?case
    by (simp add: sorted_append)
qed

text \<open>
  Claim C9. The events of the loop are the events of its turns, one turn after the other
  in document order; read as stages, they run: progress text, request and completion of
  the first placeholder, then the same for the second, and so on, each completion
  (success or failure) before the next placeholder's progress text.
\<close>

theorem sequential_order:
  "fst (image_loop f 0 images)
     = concat (map (\<lambda>i. fst (loop_body f i (length images) (images ! i))) [0..<length images])
   \<and> map stamp (fst (image_loop f 0 images))
       = concat (map (\<lambda>i. if call_fails (f i (image_body_of (images ! i)))
                           then [3 * i, 3 * i + 1, 3 * i + 2]
                           else [3 * i, 3 * i + 1, 3 * i + 2, 3 * i + 2]) [0..<length images])
   \<and> sorted (map stamp (fst (image_loop f 0 images)))"
proof -
  let ?g = "\<lambda>i. if call_fails (f i (image_body_of (images ! i)))
                 then [3 * i, 3 * i + 1, 3 * i + 2]
                 else [3 * i, 3 * i + 1, 3 * i + 2, 3 * i + 2]"
  have stamps: "map stamp (fst (image_loop f 0 images)) = concat (map ?g [0..<length images])"
    by (simp add: image_loop_events map_concat comp_def turn_stamps)
  have "sorted (concat (map ?g [0..<length images]))"
    by (rule sorted_turns) (auto split: if_splits)
  with stamps show ?thesis
    by (simp add: image_loop_events)
qed


subsection \<open>The empty brief\<close>

lemma trim_blank:
  assumes "set s \<subseteq> set white_space"
  shows "trim s = []"
proof -
  from assms have "\<forall>c\<in>set s. c \<in> set white_space"
    by blast
  then have "dropWhile (\<lambda>c. c \<in> set white_space) s = []"
    by (simp only: dropWhile_eq_Nil_conv)
  then show ?thesis
    by (simp only: trim_def rev.simps dropWhile.simps)
qed

text \<open>
  Claim C8. When the brief is empty or consists of white space only, the handler shows the
  validation alert and does nothing else: no fetch of any kind, no change to the page.
\<close>

theorem empty_brief_rejected:
  assumes "set userInput \<subseteq> set white_space"
  shows "click_handler parse fetch_layout fetch_image userInput
           = ([Alert ''Please enter your requirements first.''], [])"
  using trim_blank [OF assms] by (simp add: click_handler_def)

theorem empty_brief_rejected_witness:
  "set [0x20, 0x9, 0x3000, 0xA] \<subseteq> set white_space
   \<and> click_handler (\<lambda>html. example_images) (served_layout example_world)
        (served_image example_worlds) [0x20, 0x9, 0x3000, 0xA]
       = ([Alert ''Please enter your requirements first.''], [])
   \<and> click_handler (\<lambda>html. example_images) (served_layout example_world)
        (served_image example_worlds) []
       = ([Alert ''Please enter your requirements first.''], [])"
proof -
  have blank: "set [0x20, 0x9, 0x3000, 0xA] \<subseteq> set white_space"
    by (simp add: white_space_def)
  have none: "set [] \<subseteq> set white_space"
    by simp
  from empty_brief_rejected [OF blank] empty_brief_rejected [OF none] blank
  show ?thesis by blast
qed

subsection \<open>Failure of the layout call\<close>

text \<open>Every way \<open>callGemini\<close> can fail reaches the page as a failed layout call.\<close>

lemma gemini_failure_served:
  "callGemini w (fullPrompt \<lparr>body_requirements = brief\<rparr>) = Inl e \<Longrightarrow> layout_fails (served_layout w brief)"
  by (simp add: layout_fails_def served_layout_def api_generate_layout_def over_http_def
      json_field_def)

text \<open>
  Claim C7. When the layout call fails (the fetch rejects, the status is not ok, or the
  body cannot be read), the handler shows one alert, restores the controls and requests
  no image.
\<close>

theorem layout_failure_aborts:
  assumes brief: "trim userInput \<noteq> []"
    and fails: "layout_fails (fetch_layout (trim userInput))"
  shows "click_handler parse fetch_layout fetch_image userInput
           = ([SetPosterHtml [], SetDisabled True, SetLoadingHidden False,
               SetLoadingText GeneratingLayout, FetchLayout (trim userInput),
               Alert ''An error occurred while generating the flyer. Please try again.'',
               SetLoadingHidden True, SetDisabled False], [])
       \<and> filter is_fetch_image (fst (click_handler parse fetch_layout fetch_image userInput)) = []"
proof -
  from fails obtain e where
    "json_field (fetch_layout (trim userInput)) ''Failed to generate layout'' = Inl e"
    by (auto simp: layout_fails_def isl_def)
  with brief show ?thesis
    by (simp add: click_handler_def Let_def)
qed

theorem layout_failure_aborts_witness:
  "trim [0x41, 0x20] \<noteq> []
   \<and> layout_fails (served_layout no_layout (trim [0x41, 0x20]))
   \<and> click_handler (\<lambda>html. example_images) (served_layout no_layout)
        (served_image example_worlds) [0x41, 0x20]
       = ([SetPosterHtml [], SetDisabled True, SetLoadingHidden False,
           SetLoadingText GeneratingLayout, FetchLayout [0x41],
           Alert ''An error occurred while generating the flyer. Please try again.'',
           SetLoadingHidden True, SetDisabled False], [])"
proof -
  have trimmed: "trim [0x41, 0x20] = [0x41]"
    by (simp add: trim_def white_space_def)
  then have brief: "trim [0x41, 0x20] \<noteq> []"
    by simp
  have "callGemini no_layout (fullPrompt \<lparr>body_requirements = trim [0x41, 0x20]\<rparr>)
          = Inl (UpstreamStatus ''Gemini API'' 503 ''unavailable'')"
    by (simp add: callGemini_def no_layout_def example_world_def missing_def)
  then have fails: "layout_fails (served_layout no_layout (trim [0x41, 0x20]))"
    by (rule gemini_failure_served)
  from layout_failure_aborts [where userInput = "[0x41, 0x20]" and fetch_layout = "served_layout no_layout",
      OF brief fails] brief fails trimmed
  show ?thesis by simp
qed

subsection \<open>The prompt of the layout call\<close>

text \<open>
  Claim C4. The claim is that the prompt given to the language model incorporates the
  brief of the request. The handler builds the prompt from two fixed texts: any two
  briefs give the same prompt and the same reply.
\<close>

theorem layout_prompt_ignores_brief:
  "fullPrompt \<lparr>body_requirements = brief\<rparr> = fullPrompt \<lparr>body_requirements = brief'\<rparr>
   \<and> api_generate_layout w \<lparr>body_requirements = brief\<rparr>
       = api_generate_layout w \<lparr>body_requirements = brief'\<rparr>"
  by (simp add: fullPrompt_def api_generate_layout_def)

subsection \<open>The input of the background-removal endpoint\<close>

text \<open>
  For a remote URL the endpoint fetches the image, and then decodes the text of the URL
  itself; for a raw base64 string it decodes the string and sniffs the type.
\<close>

lemma remote_bytes_dropped:
  assumes "prefix ''http://'' u \<or> prefix ''https://'' u"
    and "remote w u = RemoteOk bytes contentType"
  shows "\<exists>mimeType. remove_bg_blob w (Some u) = Inr (mimeType, from_base64 w u)"
proof -
  from assms(1) have "\<not> prefix ''data:'' u" "\<not> prefix ''data:image'' u" "u \<noteq> []"
    by (auto simp: prefix_def)
  with assms show ?thesis
    by (simp add: remove_bg_blob_def declared_mime_def reassigned_base64Data_def Let_def
        split: option.splits)
qed

lemma raw_base64_bytes:
  assumes "\<not> prefix ''data:'' u" "\<not> prefix ''http://'' u" "\<not> prefix ''https://'' u" "u \<noteq> []"
  shows "remove_bg_blob w (Some u)
           = Inr (if detectImageMimeFromBuffer (from_base64 w u) \<noteq> ''application/octet-stream''
                  then detectImageMimeFromBuffer (from_base64 w u) else ''image/png'',
                  from_base64 w u)"
proof -
  from assms(1) have "\<not> prefix ''data:image'' u"
    by (auto simp: prefix_def)
  with assms show ?thesis
    by (simp add: remove_bg_blob_def declared_mime_def reassigned_base64Data_def Let_def)
qed

text \<open>
  Claim C6. The claim is that for every shape of input, a remote URL included, the bytes
  of the image reach the segmentation routine unaltered. For the URL
  \<open>http://example.com/cat.png\<close>, served as a PNG, the blob handed to the library holds
  the base64 decoding of the URL's own characters, not the bytes fetched.
\<close>

theorem remote_image_not_segmented:
  "remote example_world ''http://example.com/cat.png'' = RemoteOk png_signature (Some ''image/png'')
   \<and> remove_bg_blob example_world (Some ''http://example.com/cat.png'')
       = Inr (''image/png'', from_base64 example_world ''http://example.com/cat.png'')
   \<and> from_base64 example_world ''http://example.com/cat.png''
       = [134, 219, 105, 255, 247, 177, 106, 106, 101, 121, 202, 38, 253, 198, 173, 166, 120]
   \<and> from_base64 example_world ''http://example.com/cat.png'' \<noteq> png_signature"
proof -
  have decoded: "from_base64 example_world ''http://example.com/cat.png''
       = [134, 219, 105, 255, 247, 177, 106, 106, 101, 121, 202, 38, 253, 198, 173, 166, 120]"
    by (simp add: example_world_def base64_decode_def base64_digit_def List.map_filter_def)
  have fetched: "remote example_world ''http://example.com/cat.png'' = RemoteOk png_signature (Some ''image/png'')"
    by (simp add: example_world_def)
  have "remove_bg_blob example_world (Some ''http://example.com/cat.png'')
       = Inr (''image/png'', from_base64 example_world ''http://example.com/cat.png'')"
    using fetched
    by (simp add: remove_bg_blob_def declared_mime_def reassigned_base64Data_def Let_def decoded
        detectImageMimeFromBuffer_def byte_at_def)
  with decoded fetched show ?thesis
    by (simp add: png_signature_def)
qed

end
